theory Spec2Isabelle
  imports Complex_Main "HOL-Library.Word" "HOL-Library.Monad_Syntax"
begin

section \<open>Strings, bytes, configuration\<close>

text \<open>
  A Python \<open>str\<close> is a sequence of Unicode code points; it is modelled as a list of
  code points (natural numbers), so that \<open>length\<close> counts what Python's \<open>len\<close> counts
  and the full-width characters of the substitution table are single elements.
  \<open>u\<close> turns an ASCII literal into such a string.
\<close>

type_synonym ustring = "nat list"

type_synonym bytes = "8 word list"

definition u :: "string \<Rightarrow> ustring" where
  "u s = map of_char s"


text \<open>Class \<open>Config\<close> of \<open>malatang_processor.py\<close>: a record, and the values the class gives.\<close>

record config =
  INPUT_FILE :: ustring
  OUTPUT_EXCEL :: ustring
  IMAGES_DIR :: ustring
  LOG_FILE :: ustring
  REQUEST_TIMEOUT :: nat
  MAX_RETRIES :: nat
  FILENAME_MAX_LENGTH :: nat
  CONVERT_TO_JPG :: bool
  JPG_QUALITY :: nat

definition Config :: config where
  "Config = \<lparr> INPUT_FILE = u ''D:/ailun/liansuoshuju.txt'',
               OUTPUT_EXCEL = u ''malatang_products.xlsx'',
               IMAGES_DIR = u ''images'',
               LOG_FILE = u ''malatang_processor.log'',
               REQUEST_TIMEOUT = 30,
               MAX_RETRIES = 3,
               FILENAME_MAX_LENGTH = 100,
               CONVERT_TO_JPG = True,
               JPG_QUALITY = 95 \<rparr>"

section \<open>The decoded feed\<close>

text \<open>
  What \<open>json.load\<close> returns. A number stands for a Python \<open>int\<close> or \<open>float\<close>; the
  program only compares it with zero and passes it on. An object is the \<open>dict\<close> in
  insertion order, looked up with \<open>map_of\<close>.
\<close>

datatype json =
    JNull
  | JBool bool
  | JNum real
  | JStr ustring
  | JArr "json list"
  | JObj "(ustring \<times> json) list"

text \<open>Python truthiness (\<open>if x\<close>, \<open>not x\<close>, \<open>x or y\<close>).\<close>

fun truthy :: "json \<Rightarrow> bool" where
  "truthy JNull = False"
| "truthy (JBool b) = b"
| "truthy (JNum r) = (r \<noteq> 0)"
| "truthy (JStr s) = (s \<noteq> [])"
| "truthy (JArr xs) = (xs \<noteq> [])"
| "truthy (JObj kvs) = (kvs \<noteq> [])"

text \<open>
  \<open>x.get(key, default)\<close>: only a \<open>dict\<close> has the method; on any other value Python raises
  \<open>AttributeError\<close>, which is \<open>None\<close> here.
\<close>

fun py_get :: "json \<Rightarrow> ustring \<Rightarrow> json \<Rightarrow> json option" where
  "py_get (JObj kvs) k dflt = Some (case map_of kvs k of None \<Rightarrow> dflt | Some v \<Rightarrow> v)"
| "py_get _ k dflt = None"

text \<open>
  \<open>x[0]\<close> on a truthy value: the first element of a list, the first character of a string;
  \<open>KeyError\<close> on a dict (its keys are strings), \<open>TypeError\<close> on the rest.
\<close>

fun py_index0 :: "json \<Rightarrow> json option" where
  "py_index0 (JArr (x # xs)) = Some x"
| "py_index0 (JStr (c # cs)) = Some (JStr [c])"
| "py_index0 _ = None"

text \<open>
  \<open>len(x)\<close> followed by \<open>for item in x\<close>: the elements of a list, the characters of a string,
  the keys of a dict; \<open>TypeError\<close> on the rest.
\<close>

fun py_items :: "json \<Rightarrow> json list option" where
  "py_items (JArr xs) = Some xs"
| "py_items (JStr s) = Some (map (\<lambda>c. JStr [c]) s)"
| "py_items (JObj kvs) = Some (map (\<lambda>kv. JStr (fst kv)) kvs)"
| "py_items _ = None"

text \<open>\<open>x > 0\<close>: defined on numbers and booleans, \<open>TypeError\<close> on the rest.\<close>

fun py_gt_zero :: "json \<Rightarrow> bool option" where
  "py_gt_zero (JNum r) = Some (0 < r)"
| "py_gt_zero (JBool b) = Some b"
| "py_gt_zero _ = None"

text \<open>The characters \<open>str.strip()\<close> removes (those for which \<open>str.isspace\<close> holds).\<close>

definition is_space :: "nat \<Rightarrow> bool" where
  "is_space c \<longleftrightarrow>
     (0x09 \<le> c \<and> c \<le> 0x0D) \<or> (0x1C \<le> c \<and> c \<le> 0x20) \<or> c = 0x85 \<or> c = 0xA0 \<or>
     c = 0x1680 \<or> (0x2000 \<le> c \<and> c \<le> 0x200A) \<or> c = 0x2028 \<or> c = 0x2029 \<or>
     c = 0x202F \<or> c = 0x205F \<or> c = 0x3000"

definition py_strip :: "ustring \<Rightarrow> ustring" where
  "py_strip s = rev (dropWhile is_space (rev (dropWhile is_space s)))"

section \<open>Log records and other observable events\<close>

datatype level = DEBUG | INFO | WARNING | ERROR

text \<open>The exceptions the program distinguishes, and the \<open>except\<close> clause that catches each.\<close>

datatype exn =
    SSLError
  | ConnectionError
  | ConnectTimeout
  | ReadTimeout
  | HTTPError nat
  | FileExistsError
  | FileNotFoundError
  | NotADirectoryError
  | OtherException

datatype clause = SSL_clause | Connection_clause | Timeout_clause | Generic_clause

text \<open>
  The clauses of \<open>_download_single_image\<close> in their order: \<open>SSLError\<close>, \<open>ConnectionError\<close>,
  \<open>Timeout\<close>, \<open>Exception\<close>. A connect timeout is a \<open>ConnectionError\<close> as well as a
  \<open>Timeout\<close>, so the second clause takes it.
\<close>

fun except_clause :: "exn \<Rightarrow> clause" where
  "except_clause SSLError = SSL_clause"
| "except_clause ConnectionError = Connection_clause"
| "except_clause ConnectTimeout = Connection_clause"
| "except_clause ReadTimeout = Timeout_clause"
| "except_clause _ = Generic_clause"

text \<open>The argument of \<open>time.sleep\<close> in each clause, in seconds.\<close>

fun retry_delay :: "clause \<Rightarrow> nat" where
  "retry_delay SSL_clause = 2"
| "retry_delay Connection_clause = 2"
| "retry_delay Timeout_clause = 2"
| "retry_delay Generic_clause = 1"

text \<open>One constructor for each message the program logs, with the values it formats in.\<close>

datatype msg =
    Parsed ustring
  | Json_decode_error
  | File_not_found ustring
  | Read_error
  | Found nat
  | Extract_list_failed
  | Extracted nat
  | Extract_single_failed
  | Loaded nat
  | Excel_missing
  | Excel_load_failed
  | Added nat
  | Nothing_new
  | Save_failed
  | Download_summary nat nat nat
  | Too_small nat ustring
  | Downloaded ustring nat
  | Fetch_failed clause nat nat json
  | Conversion_failed
  | Converted ustring
  | Saved_original ustring
  | Save_original_failed
  | Change_detected
  | Processing_started
  | No_products
  | Processing_done

text \<open>
  What the program does to the outside, in order: a log record, a \<open>time.sleep\<close> of the
  program itself, one GET sent on the wire, and one back-off pause of the retry adapter of
  the session (both in whole seconds).
\<close>

datatype event =
    Log level msg
  | Sleep nat
  | HttpGet json bool
  | Backoff nat

section \<open>Products and catalogue rows\<close>

record product =
  name :: ustring
  price :: json
  discount_price :: json
  month_sale :: json
  image_url :: json
  image_filename :: ustring

text \<open>
  What a cell of a data frame holds: a Python value, or the missing value \<open>NaN\<close>, which is
  equal to no string. The program puts the values of the product there, the name as a
  string; \<open>pd.read_excel\<close> may return a cell as \<open>NaN\<close>, or as a number or a truth value
  where a string was written.
\<close>

datatype cell = Cell json | NaN

text \<open>A row of the sheet: the six product columns and the update time, in this order.\<close>

record row =
  row_name :: cell
  row_price :: cell
  row_discount_price :: cell
  row_month_sale :: cell
  row_image_url :: cell
  row_image_filename :: cell
  last_updated :: cell

section \<open>The environment\<close>

text \<open>
  What the program asks of the libraries and the outside world:
  the answer to the \<open>n\<close>-th call of \<open>session.get\<close> (for a URL, with or without the CDN
  headers) together with the back-off pauses the mounted retry adapter made inside that call,
  one before each repetition of the request;
  \<open>urlparse(url).netloc\<close> and the extension \<open>os.path.splitext(urlparse(url).path)[1]\<close>
  (\<open>None\<close> when \<open>urlparse\<close> raises), the decode, flatten and JPEG-encode of Pillow
  (\<open>None\<close> when it raises), whether \<open>open(path, 'wb')\<close> and \<open>to_excel(path)\<close> succeed,
  the frame that \<open>pd.read_excel(path)\<close>, called with its defaults, returns for a file that
  holds the given rows, and the formatted \<open>datetime.now()\<close>.
\<close>

datatype http_result = Raises exn | Response nat bytes

record env =
  session_get :: "nat \<Rightarrow> json \<Rightarrow> bool \<Rightarrow> http_result \<times> nat list"
  url_netloc :: "json \<Rightarrow> ustring option"
  url_ext :: "json \<Rightarrow> ustring option"
  pil_to_jpeg :: "bytes \<Rightarrow> bytes option"
  can_write :: "ustring \<Rightarrow> bool"
  excel_can_write :: "ustring \<Rightarrow> bool"
  pd_read_excel :: "row list \<Rightarrow> row list"
  now_str :: ustring

datatype feed_file = FeedMissing | FeedMalformed | FeedUnreadable | FeedJson json

datatype excel_file = ExcelMissing | ExcelUnreadable | Sheet "row list"

text \<open>
  The state the program reads and writes: the feed files, the spreadsheets, the files and
  directories of the image tree, everything logged, slept and requested so far, the
  number of calls of \<open>session.get\<close> made, and the clock that \<open>time.time()\<close> reads, in
  seconds. A sleep moves the clock on by its length; whatever else takes time is left out, so
  the clock is never ahead of the real one.
\<close>

record world =
  feeds :: "ustring \<Rightarrow> feed_file"
  excel :: "ustring \<Rightarrow> excel_file"
  files :: "ustring \<rightharpoonup> bytes"
  dirs :: "ustring set"
  trace :: "event list"
  gets :: nat
  clock :: real

definition emit :: "event \<Rightarrow> world \<Rightarrow> world" where
  "emit e w = w\<lparr>trace := trace w @ [e]\<rparr>"

definition emits :: "event list \<Rightarrow> world \<Rightarrow> world" where
  "emits es w = w\<lparr>trace := trace w @ es\<rparr>"

text \<open>\<open>time.sleep(n)\<close>.\<close>

definition sleep :: "nat \<Rightarrow> world \<Rightarrow> world" where
  "sleep n w = w\<lparr>trace := trace w @ [Sleep n], clock := clock w + real n\<rparr>"

definition write_file :: "ustring \<Rightarrow> bytes \<Rightarrow> world \<Rightarrow> world" where
  "write_file p b w = w\<lparr>files := (files w)(p \<mapsto> b)\<rparr>"

definition remove_file :: "ustring \<Rightarrow> world \<Rightarrow> world" where
  "remove_file p w = w\<lparr>files := (files w)(p := None)\<rparr>"

text \<open>\<open>os.path.exists\<close>: true of a file and of a directory.\<close>

definition path_exists :: "world \<Rightarrow> ustring \<Rightarrow> bool" where
  "path_exists w p \<longleftrightarrow> files w p \<noteq> None \<or> p \<in> dirs w"

text \<open>\<open>os.path.join\<close> of two components (the POSIX rule).\<close>

definition os_path_join :: "ustring \<Rightarrow> ustring \<Rightarrow> ustring" where
  "os_path_join a p =
     (if p \<noteq> [] \<and> hd p = 0x2F then p
      else if a = [] \<or> last a = 0x2F then a @ p
      else a @ [0x2F] @ p)"

section \<open>DataExtractor\<close>

text \<open>
  \<open>str.replace(old, new)\<close> for a pattern of one character, which is all the table has.
\<close>

definition str_replace :: "nat \<Rightarrow> ustring \<Rightarrow> ustring \<Rightarrow> ustring" where
  "str_replace old new s = concat (map (\<lambda>c. if c = old then new else [c]) s)"

text \<open>
  The dict \<open>replacements\<close> of \<open>_clean_filename\<close>, in its order. The fourth entry maps the
  ASCII quotation mark U+0022 to U+0022: the source has the same character on both sides.
\<close>

definition replacements :: "(nat \<times> ustring) list" where
  "replacements =
     [(0x3C, [0xFF1C]), (0x3E, [0xFF1E]), (0x3A, [0xFF1A]), (0x22, [0x22]), (0x2F, [0xFF0F]),
      (0x5C, [0xFF3C]), (0x7C, [0xFF5C]), (0x3F, [0xFF1F]), (0x2A, [0xFF0A])]"

text \<open>\<open>_clean_filename\<close>; \<open>None\<close> when \<open>urlparse\<close> raises.\<close>

definition clean_filename :: "config \<Rightarrow> env \<Rightarrow> ustring \<Rightarrow> json \<Rightarrow> ustring option" where
  "clean_filename cfg en product_name url =
     (let clean_name = foldl (\<lambda>s (old_char, new_char). str_replace old_char new_char s)
                             product_name replacements
      in if CONVERT_TO_JPG cfg then Some (clean_name @ u ''.jpg'')
         else (case url_ext en url of
                 None \<Rightarrow> None
               | Some ext \<Rightarrow> Some (clean_name @ (if ext = [] then u ''.jpg'' else ext))))"

text \<open>
  \<open>_extract_image_info\<close>: the pair (url, filename); \<open>None\<close> when it raises. The file name is
  made from the entry's name as the feed has it, before \<open>strip\<close>.
\<close>

definition extract_image_info :: "config \<Rightarrow> env \<Rightarrow> json \<Rightarrow> (json \<times> ustring) option" where
  "extract_image_info cfg en item =
     do {
       pic_vos \<leftarrow> py_get item (u ''wmProductPicVos'') (JArr []);
       if \<not> truthy pic_vos then Some (JStr [], [])
       else do {
         pic0 \<leftarrow> py_index0 pic_vos;
         large \<leftarrow> py_get pic0 (u ''picLargeUrl'') JNull;
         pic_url \<leftarrow> (if truthy large then Some large else py_get pic0 (u ''picUrl'') (JStr []));
         if truthy pic_url then do {
           product_name \<leftarrow> py_get item (u ''name'') (JStr (u ''unknown''));
           filename \<leftarrow> (case product_name of
                          JStr s \<Rightarrow> clean_filename cfg en s pic_url
                        | _ \<Rightarrow> None);
           Some (pic_url, filename)
         }
         else Some (JStr [], [])
       }
     }"

text \<open>
  The \<open>try\<close> block of \<open>_extract_single_product\<close>: \<open>None\<close> when it raises, \<open>Some None\<close> when
  it returns \<open>None\<close> (empty name), \<open>Some (Some p)\<close> when it returns the product.
\<close>

definition extract_single_product_try :: "config \<Rightarrow> env \<Rightarrow> json \<Rightarrow> product option option" where
  "extract_single_product_try cfg en item =
     do {
       raw \<leftarrow> py_get item (u ''name'') (JStr []);
       nm \<leftarrow> (case raw of JStr s \<Rightarrow> Some (py_strip s) | _ \<Rightarrow> None);
       if nm = [] then Some None
       else do {
         pr \<leftarrow> py_get item (u ''price'') (JNum 0);
         dp \<leftarrow> py_get item (u ''discountPrice'') (JNum (- 1));
         ms \<leftarrow> py_get item (u ''monthSale'') (JNum 0);
         pic_info \<leftarrow> extract_image_info cfg en item;
         positive \<leftarrow> py_gt_zero dp;
         Some (Some \<lparr> name = nm, price = pr,
                      discount_price = (if positive then dp else pr),
                      month_sale = ms,
                      image_url = fst pic_info,
                      image_filename = snd pic_info \<rparr>)
       }
     }"

text \<open>\<open>_extract_single_product\<close>, with what it logs.\<close>

definition extract_single_product :: "config \<Rightarrow> env \<Rightarrow> json \<Rightarrow> product option \<times> event list" where
  "extract_single_product cfg en item =
     (case extract_single_product_try cfg en item of
        None \<Rightarrow> (None, [Log WARNING Extract_single_failed])
      | Some r \<Rightarrow> (r, []))"

text \<open>
  \<open>extract_products\<close>, with what it logs. \<open>_extract_single_product\<close> lets no exception out,
  so the inner \<open>except\<close> of the loop is never entered; the outer one catches a feed whose
  \<open>data\<close> or \<open>spuListVos\<close> has the wrong shape.
\<close>

definition spu_list_of :: "json \<Rightarrow> json list option" where
  "spu_list_of data =
     do {
       d \<leftarrow> py_get data (u ''data'') (JObj []);
       spu_list \<leftarrow> py_get d (u ''spuListVos'') (JArr []);
       py_items spu_list
     }"

definition extract_products :: "config \<Rightarrow> env \<Rightarrow> json \<Rightarrow> product list \<times> event list" where
  "extract_products cfg en data =
     (case spu_list_of data of
        None \<Rightarrow> ([], [Log ERROR Extract_list_failed, Log INFO (Extracted 0)])
      | Some spu_list \<Rightarrow>
          (let results = map (extract_single_product cfg en) spu_list;
               products = List.map_filter fst results
           in (products,
               [Log INFO (Found (length spu_list))] @ concat (map snd results) @
               [Log INFO (Extracted (length products))])))"

text \<open>\<open>parse_json_file\<close>.\<close>

definition parse_json_file :: "ustring \<Rightarrow> world \<Rightarrow> json option \<times> world" where
  "parse_json_file file_path w =
     (case feeds w file_path of
        FeedJson data \<Rightarrow> (Some data, emit (Log INFO (Parsed file_path)) w)
      | FeedMalformed \<Rightarrow> (None, emit (Log ERROR Json_decode_error) w)
      | FeedMissing \<Rightarrow> (None, emit (Log ERROR (File_not_found file_path)) w)
      | FeedUnreadable \<Rightarrow> (None, emit (Log ERROR Read_error) w))"

section \<open>ExcelManager\<close>

text \<open>
  \<open>load_existing_data\<close>: what \<open>pd.read_excel\<close> makes of the sheet when the file is there
  and readable, the empty frame otherwise.
\<close>

definition load_existing_data :: "env \<Rightarrow> ustring \<Rightarrow> world \<Rightarrow> row list \<times> world" where
  "load_existing_data en file_path w =
     (case excel w file_path of
        Sheet stored \<Rightarrow>
          (let df = pd_read_excel en stored in (df, emit (Log INFO (Loaded (length df))) w))
      | ExcelMissing \<Rightarrow> ([], emit (Log INFO Excel_missing) w)
      | ExcelUnreadable \<Rightarrow> ([], emit (Log ERROR Excel_load_failed) w))"

text \<open>The row built for a product in the loop of \<open>save_products_to_excel\<close>.\<close>

definition new_row :: "ustring \<Rightarrow> product \<Rightarrow> row" where
  "new_row current_time p =
     \<lparr> row_name = Cell (JStr (name p)), row_price = Cell (price p),
       row_discount_price = Cell (discount_price p), row_month_sale = Cell (month_sale p),
       row_image_url = Cell (image_url p), row_image_filename = Cell (JStr (image_filename p)),
       last_updated = Cell (JStr current_time) \<rparr>"

text \<open>
  \<open>save_products_to_excel\<close>. A product is new when its name, a string, equals no cell of
  the name column of the loaded frame. \<open>to_excel\<close> writes the whole combined frame, the
  loaded rows as they were read and then the new ones, or raises and the \<open>except\<close> logs it;
  nothing is written when there is no new row.
\<close>

definition save_products_to_excel :: "env \<Rightarrow> product list \<Rightarrow> ustring \<Rightarrow> world \<Rightarrow> world" where
  "save_products_to_excel en products file_path w =
     (let (existing_df, w1) = load_existing_data en file_path w;
          existing_names = set (map row_name existing_df);
          current_time = now_str en;
          new_data = map (new_row current_time)
                         (filter (\<lambda>p. Cell (JStr (name p)) \<notin> existing_names) products)
      in if new_data \<noteq> [] then
           (if excel_can_write en file_path then
              emit (Log INFO (Added (length new_data)))
                   (w1\<lparr>excel := (excel w1)(file_path := Sheet (existing_df @ new_data))\<rparr>)
            else emit (Log ERROR Save_failed) w1)
         else emit (Log INFO Nothing_new) w1)"

section \<open>ImageDownloader\<close>

text \<open>
  The \<open>finally\<close> clause of \<open>_download_and_convert_to_jpg\<close>: the temporary file is removed
  when it is there.
\<close>

definition cleanup_temp :: "ustring \<Rightarrow> world \<Rightarrow> world" where
  "cleanup_temp temp_path w = (if files w temp_path \<noteq> None then remove_file temp_path w else w)"

text \<open>The \<open>except\<close> clause: the bytes as fetched go to the target path.\<close>

definition save_original :: "env \<Rightarrow> bytes \<Rightarrow> ustring \<Rightarrow> world \<Rightarrow> bool \<times> world" where
  "save_original en image_data file_path w =
     (let w1 = emit (Log WARNING Conversion_failed) w
      in if can_write en file_path then
           (True, emit (Log DEBUG (Saved_original file_path)) (write_file file_path image_data w1))
         else (False, emit (Log ERROR Save_original_failed) w1))"

text \<open>
  \<open>_download_and_convert_to_jpg\<close>. The raw bytes are written to \<open>file_path + '.temp'\<close>,
  Pillow reads them back and saves the JPEG to \<open>file_path\<close> itself, then the temporary file
  is removed. Any exception on the way leads to \<open>save_original\<close>; \<open>cleanup_temp\<close> runs last on
  every path.
\<close>

definition download_and_convert_to_jpg :: "env \<Rightarrow> bytes \<Rightarrow> ustring \<Rightarrow> world \<Rightarrow> bool \<times> world" where
  "download_and_convert_to_jpg en image_data file_path w =
     (let temp_path = file_path @ u ''.temp''
      in if \<not> can_write en temp_path then
           (let (r, w') = save_original en image_data file_path w in (r, cleanup_temp temp_path w'))
         else
           (let w1 = write_file temp_path image_data w
            in case pil_to_jpeg en image_data of
                 None \<Rightarrow>
                   (let (r, w') = save_original en image_data file_path w1
                    in (r, cleanup_temp temp_path w'))
               | Some jpg \<Rightarrow>
                   if \<not> can_write en file_path then
                     (let (r, w') = save_original en image_data file_path w1
                      in (r, cleanup_temp temp_path w'))
                   else
                     (let w2 = write_file file_path jpg w1;
                          w3 = remove_file temp_path w2;
                          w4 = emit (Log DEBUG (Converted file_path)) w3
                      in (True, cleanup_temp temp_path w4))))"

text \<open>
  The session of \<open>ImageDownloader.__init__\<close> mounts an adapter with
  \<open>Retry(total=3, backoff_factor=1, status_forcelist=[500, 502, 503, 504])\<close>: inside one
  call of \<open>session.get\<close> the request is sent once and repeated at most \<open>total\<close> times, with
  a back-off pause before each repetition.
\<close>

definition ADAPTER_RETRY_TOTAL :: nat where
  "ADAPTER_RETRY_TOTAL = 3"

definition adapter_events :: "json \<Rightarrow> bool \<Rightarrow> nat list \<Rightarrow> event list" where
  "adapter_events url with_headers pauses =
     HttpGet url with_headers # concat (map (\<lambda>b. [Backoff b, HttpGet url with_headers]) pauses)"

text \<open>
  The \<open>try\<close> block of one iteration of \<open>_download_single_image\<close>: \<open>Inl e\<close> when it raises
  \<open>e\<close>, \<open>Inr b\<close> when it returns \<open>b\<close>. \<open>raise_for_status\<close> raises on a status from 400 to 599.
\<close>

definition download_try :: "config \<Rightarrow> env \<Rightarrow> json \<Rightarrow> ustring \<Rightarrow> world \<Rightarrow> (exn + bool) \<times> world" where
  "download_try cfg en url file_path w =
     (case url_netloc en url of
        None \<Rightarrow> (Inl OtherException, w)
      | Some domain \<Rightarrow>
          (let with_headers = (domain = u ''img.meituan.net'');
               (result, made) = session_get en (gets w) url with_headers;
               pauses = take ADAPTER_RETRY_TOTAL made;
               w1 = w\<lparr>trace := trace w @ adapter_events url with_headers pauses,
                      gets := gets w + 1,
                      clock := clock w + real (sum_list pauses)\<rparr>
           in case result of
                Raises e \<Rightarrow> (Inl e, w1)
              | Response status content \<Rightarrow>
                  if 400 \<le> status \<and> status < 600 then (Inl (HTTPError status), w1)
                  else if CONVERT_TO_JPG cfg then
                    (let (r, w2) = download_and_convert_to_jpg en content file_path w1
                     in (Inr r, w2))
                  else if \<not> can_write en file_path then (Inl OtherException, w1)
                  else
                    (let w2 = write_file file_path content w1;
                         file_size = length content
                     in if file_size < 1024 then
                          (Inr False,
                           remove_file file_path
                             (emit (Log WARNING (Too_small file_size file_path)) w2))
                        else (Inr True, emit (Log DEBUG (Downloaded file_path file_size)) w2))))"

text \<open>
  The loop \<open>for attempt in range(Config.MAX_RETRIES)\<close>, from iteration \<open>attempt\<close> with
  \<open>remaining\<close> iterations to go; after the last one the function returns \<open>False\<close>.
\<close>

fun download_attempts ::
  "config \<Rightarrow> env \<Rightarrow> json \<Rightarrow> ustring \<Rightarrow> nat \<Rightarrow> nat \<Rightarrow> world \<Rightarrow> bool \<times> world" where
  "download_attempts cfg en url file_path attempt 0 w = (False, w)"
| "download_attempts cfg en url file_path attempt (Suc remaining) w =
     (case download_try cfg en url file_path w of
        (Inr r, w1) \<Rightarrow> (r, w1)
      | (Inl e, w1) \<Rightarrow>
          (let w2 = emit (Log WARNING (Fetch_failed (except_clause e) (attempt + 1)
                                                    (MAX_RETRIES cfg) url)) w1;
               w3 = (if attempt < MAX_RETRIES cfg - 1
                     then sleep (retry_delay (except_clause e)) w2 else w2)
           in download_attempts cfg en url file_path (attempt + 1) remaining w3))"

definition download_single_image :: "config \<Rightarrow> env \<Rightarrow> json \<Rightarrow> ustring \<Rightarrow> world \<Rightarrow> bool \<times> world" where
  "download_single_image cfg en url file_path w =
     download_attempts cfg en url file_path 0 (MAX_RETRIES cfg) w"

text \<open>
  The loop of \<open>download_images\<close> over the products, with the three counters
  (downloaded, skipped, failed).
\<close>

fun download_loop ::
  "config \<Rightarrow> env \<Rightarrow> ustring \<Rightarrow> product list \<Rightarrow> nat \<times> nat \<times> nat \<Rightarrow> world
     \<Rightarrow> (nat \<times> nat \<times> nat) \<times> world" where
  "download_loop cfg en images_dir [] counts w = (counts, w)"
| "download_loop cfg en images_dir (p # ps) (downloaded, skipped, failed) w =
     (if \<not> truthy (image_url p) \<or> image_filename p = [] then
        download_loop cfg en images_dir ps (downloaded, skipped, failed) w
      else
        (let file_path = os_path_join images_dir (image_filename p)
         in if path_exists w file_path then
              download_loop cfg en images_dir ps (downloaded, skipped + 1, failed) w
            else
              (case download_single_image cfg en (image_url p) file_path w of
                 (True, w') \<Rightarrow>
                   download_loop cfg en images_dir ps (downloaded + 1, skipped, failed) w'
               | (False, w') \<Rightarrow>
                   download_loop cfg en images_dir ps (downloaded, skipped, failed + 1) w')))"

text \<open>
  The directory a path lies in: the path without its last component, the empty string when
  it has one component only (the working directory, or the root, which are always there).
\<close>

definition parent_of :: "ustring \<Rightarrow> ustring" where
  "parent_of p =
     rev (dropWhile (\<lambda>c. c = 0x2F)
            (dropWhile (\<lambda>c. c \<noteq> 0x2F) (dropWhile (\<lambda>c. c = 0x2F) (rev p))))"

text \<open>
  \<open>Path(images_dir).mkdir(exist_ok=True)\<close>: nothing happens when the directory is there;
  \<open>FileExistsError\<close> when the path is a file; without \<open>parents=True\<close>, \<open>NotADirectoryError\<close>
  when the parent is a file and \<open>FileNotFoundError\<close> when the parent is missing; the
  directory is made otherwise.
\<close>

definition mkdir_exist_ok :: "ustring \<Rightarrow> world \<Rightarrow> exn option \<times> world" where
  "mkdir_exist_ok p w =
     (if p \<in> dirs w then (None, w)
      else if files w p \<noteq> None then (Some FileExistsError, w)
      else if parent_of p \<noteq> [] \<and> files w (parent_of p) \<noteq> None
        then (Some NotADirectoryError, w)
      else if parent_of p \<noteq> [] \<and> parent_of p \<notin> dirs w then (Some FileNotFoundError, w)
      else (None, w\<lparr>dirs := insert p (dirs w)\<rparr>))"

text \<open>\<open>download_images\<close>. Nothing in the program catches what \<open>mkdir\<close> raises.\<close>

definition download_images ::
  "config \<Rightarrow> env \<Rightarrow> product list \<Rightarrow> ustring \<Rightarrow> world \<Rightarrow> exn option \<times> world" where
  "download_images cfg en products images_dir w =
     (case mkdir_exist_ok images_dir w of
        (Some e, w1) \<Rightarrow> (Some e, w1)
      | (None, w1) \<Rightarrow>
          (let ((downloaded, skipped, failed), w2) =
                 download_loop cfg en images_dir products (0, 0, 0) w1
           in (None, emit (Log INFO (Download_summary downloaded skipped failed)) w2)))"

section \<open>MalatangProcessor and FileMonitorHandler\<close>

text \<open>\<open>process_file\<close>: the exception that escapes it, if any, and the state it leaves.\<close>

definition process_file :: "config \<Rightarrow> env \<Rightarrow> world \<Rightarrow> exn option \<times> world" where
  "process_file cfg en w =
     (let w0 = emit (Log INFO Processing_started) w;
          (data, w1) = parse_json_file (INPUT_FILE cfg) w0
      in case data of
           None \<Rightarrow> (None, w1)
         | Some d \<Rightarrow>
             if \<not> truthy d then (None, w1)
             else
               (let (products, logged) = extract_products cfg en d;
                    w2 = emits logged w1
                in if products = [] then (None, emit (Log WARNING No_products) w2)
                   else
                     (let w3 = save_products_to_excel en products (OUTPUT_EXCEL cfg) w2
                      in case download_images cfg en products (IMAGES_DIR cfg) w3 of
                           (Some e, w4) \<Rightarrow> (Some e, w4)
                         | (None, w4) \<Rightarrow> (None, emit (Log INFO Processing_done) w4))))"







section \<open>Vocabulary of the properties\<close>

text \<open>
  The nine reserved characters (less-than, greater-than, colon, quotation mark, slash,
  backslash, vertical bar, question mark, asterisk), the full-width form of an ASCII
  character (U+FF01 to U+FF5E stand for U+0021 to U+007E), the file name as the
  specification words it, and what the code does to one character.
\<close>

definition reserved :: "nat set" where
  "reserved = {0x3C, 0x3E, 0x3A, 0x22, 0x2F, 0x5C, 0x7C, 0x3F, 0x2A}"

definition full_width :: "nat \<Rightarrow> nat" where
  "full_width c = c + 0xFEE0"

definition spec_filename :: "ustring \<Rightarrow> ustring" where
  "spec_filename nm = map (\<lambda>c. if c \<in> reserved then full_width c else c) nm @ u ''.jpg''"

definition substituted :: "nat \<Rightarrow> nat" where
  "substituted c = (if c \<in> reserved \<and> c \<noteq> 0x22 then full_width c else c)"


text \<open>
  The rows of a catalogue file, none when the file is missing or unreadable.
\<close>

definition rows_of :: "excel_file \<Rightarrow> row list" where
  "rows_of x = (case x of Sheet df \<Rightarrow> df | _ \<Rightarrow> [])"


text \<open>
  The number of GETs sent on the wire, read off the trace.
\<close>

fun is_get :: "event \<Rightarrow> bool" where
  "is_get (HttpGet url h) = True"
| "is_get e = False"

definition wire_gets :: "event list \<Rightarrow> nat" where
  "wire_gets t = length (filter is_get t)"




text \<open>
  Events that mark a run in the log: the start of \<open>process_file\<close> and the summary of
  \<open>download_images\<close>. Every other event is quiet, and \<open>quiet_ext w w'\<close> says that \<open>w'\<close> has
  the trace of \<open>w\<close> followed by quiet events only.
\<close>

fun quiet :: "event \<Rightarrow> bool" where
  "quiet (Log l Processing_started) = False"
| "quiet (Log l (Download_summary d s f)) = False"
| "quiet e = True"

definition quiet_ext :: "world \<Rightarrow> world \<Rightarrow> bool" where
  "quiet_ext w w' \<longleftrightarrow> (\<exists>t. trace w' = trace w @ t \<and> (\<forall>e\<in>set t. quiet e))"

text \<open>
  What one run added to the log.
\<close>

definition run_log :: "world \<Rightarrow> world \<Rightarrow> event list" where
  "run_log w w' = drop (length (trace w)) (trace w')"



definition untouched :: "config \<Rightarrow> ustring \<Rightarrow> world \<Rightarrow> world \<Rightarrow> bool" where
  "untouched cfg fp w w' \<longleftrightarrow>
     dirs w' = dirs w \<and> excel w' = excel w \<and> feeds w' = feeds w \<and>
     (\<forall>q. q \<noteq> fp \<longrightarrow> (CONVERT_TO_JPG cfg \<longrightarrow> q \<noteq> fp @ u ''.temp'') \<longrightarrow> files w' q = files w q)"

section \<open>Sample inputs\<close>

text \<open>
  The strings that \<open>pd.read_excel\<close> takes for missing values by default (the list in the
  documentation of its parameter \<open>na_values\<close>), and what it returns for a sheet that this
  program wrote from products with an image whose names are neither numbers nor truth
  values: the rows as stored, with \<open>NaN\<close> in the name cell where the name was one of these
  strings.
\<close>

definition default_na_values :: "ustring list" where
  "default_na_values =
     [[], u ''#N/A'', u ''#N/A N/A'', u ''#NA'', u ''-1.#IND'', u ''-1.#QNAN'', u ''-NaN'',
      u ''-nan'', u ''1.#IND'', u ''1.#QNAN'', u ''<NA>'', u ''N/A'', u ''NA'', u ''NULL'',
      u ''NaN'', u ''None'', u ''n/a'', u ''nan'', u ''null'']"

definition pandas_read :: "row list \<Rightarrow> row list" where
  "pandas_read stored =
     map (\<lambda>r. case row_name r of
                 Cell (JStr s) \<Rightarrow> if s \<in> set default_na_values then r\<lparr>row_name := NaN\<rparr> else r
               | _ \<Rightarrow> r) stored"

text \<open>
  An environment where every request fails with a connection error, after the three
  repetitions of the adapter with their pauses, and Pillow rejects every image; and an
  empty state with a malformed feed.
\<close>

definition demo_env :: env where
  "demo_env = \<lparr> session_get = (\<lambda>n url h. (Raises ConnectionError, [0, 2, 4])),
                 url_netloc = (\<lambda>url. Some (u ''img.meituan.net'')),
                 url_ext = (\<lambda>url. Some (u ''.png'')),
                 pil_to_jpeg = (\<lambda>b. None),
                 can_write = (\<lambda>p. True),
                 excel_can_write = (\<lambda>p. True),
                 pd_read_excel = pandas_read,
                 now_str = u ''2024-01-01 00:00:00'' \<rparr>"


definition demo_world :: world where
  "demo_world = \<lparr> feeds = (\<lambda>p. FeedMalformed), excel = (\<lambda>p. ExcelMissing),
                   files = Map.empty, dirs = {}, trace = [], gets = 0, clock = 0 \<rparr>"

text \<open>
  The configuration with conversion switched off, and an environment whose first response
  is 10 bytes long and whose later ones are 2048 bytes long.
\<close>

definition raw_config :: config where
  "raw_config = Config\<lparr>CONVERT_TO_JPG := False\<rparr>"

definition big_body :: bytes where
  "big_body = replicate 2048 0"

definition tiny_env :: env where
  "tiny_env = demo_env\<lparr> session_get := (\<lambda>n url h. if n = 0 then (Response 200 (replicate 10 0), [])
                                                     else (Response 200 big_body, [])),
                         url_netloc := (\<lambda>url. Some (u ''example.com'')) \<rparr>"

text \<open>
  An environment where Pillow converts every image, and one where the server answers every
  request with status 304 and no body.
\<close>

definition jpeg_env :: env where
  "jpeg_env = demo_env\<lparr> pil_to_jpeg := (\<lambda>b. Some [0xFF, 0xD8, 0xFF]) \<rparr>"



definition demo_item :: product where
  "demo_item = \<lparr> name = u ''A'', price = JNum 20, discount_price = JNum 20,
                  month_sale = JNum 0, image_url = JStr (u ''http://x/a.png''),
                  image_filename = u ''A.jpg'' \<rparr>"

definition demo_row :: row where
  "demo_row = \<lparr> row_name = Cell (JStr (u ''A'')), row_price = Cell (JNum 20),
                 row_discount_price = Cell (JNum 20), row_month_sale = Cell (JNum 0),
                 row_image_url = Cell (JStr (u ''http://x/a.png'')),
                 row_image_filename = Cell (JStr (u ''A.jpg'')),
                 last_updated = Cell (JStr (u ''2024-01-01 00:00:00'')) \<rparr>"


text \<open>
  A product whose name is \<open>NA\<close>, and the row the program writes for it.
\<close>

definition na_item :: product where
  "na_item = \<lparr> name = u ''NA'', price = JNum 20, discount_price = JNum 20,
                month_sale = JNum 0, image_url = JStr (u ''http://x/a.png''),
                image_filename = u ''NA.jpg'' \<rparr>"

definition na_row :: row where
  "na_row = \<lparr> row_name = Cell (JStr (u ''NA'')), row_price = Cell (JNum 20),
               row_discount_price = Cell (JNum 20), row_month_sale = Cell (JNum 0),
               row_image_url = Cell (JStr (u ''http://x/a.png'')),
               row_image_filename = Cell (JStr (u ''NA.jpg'')),
               last_updated = Cell (JStr (u ''2024-01-01 00:00:00'')) \<rparr>"











section \<open>File names\<close>

lemma str_replace_single: "str_replace old [new] s = map (\<lambda>c. if c = old then new else c) s"
  by (induction s) (simp_all add: str_replace_def)

lemma clean_name_map:
  "foldl (\<lambda>s (old_char, new_char). str_replace old_char new_char s) nm replacements
     = map substituted nm"
  by (simp add: replacements_def str_replace_single substituted_def reserved_def full_width_def)

lemma clean_filename_Config:
  "clean_filename Config en nm url = Some (map substituted nm @ u ''.jpg'')"
  by (simp add: clean_filename_def clean_name_map Config_def)

text \<open>
  Claim C3. The claim: for every product name the file name is the name with each of the
  nine reserved characters replaced by its full-width counterpart, followed by \<open>.jpg\<close>
  (\<open>spec_filename\<close>). The code replaces eight of them; the entry for the quotation mark
  U+0022 maps it to itself, although its comment announces the full-width mark. On the name
  \<open>a"b\<close> the code gives \<open>a"b.jpg\<close>, where the claim gives the name with U+FF02.
\<close>

theorem quote_not_replaced:
  "clean_filename Config en [0x61, 0x22, 0x62] url = Some ([0x61, 0x22, 0x62] @ u ''.jpg'')
   \<and> spec_filename [0x61, 0x22, 0x62] = [0x61, 0xFF02, 0x62] @ u ''.jpg''
   \<and> clean_filename Config en [0x61, 0x22, 0x62] url \<noteq> Some (spec_filename [0x61, 0x22, 0x62])"
  by (simp add: clean_filename_Config substituted_def reserved_def full_width_def spec_filename_def)


lemma substituted_outside: "c \<notin> reserved \<Longrightarrow> substituted c = c"
  by (simp add: substituted_def)






section \<open>The catalogue\<close>

lemma load_existing_data_state:
  "excel (snd (load_existing_data en path w)) = excel w"
  "files (snd (load_existing_data en path w)) = files w"
  "dirs (snd (load_existing_data en path w)) = dirs w"
  "gets (snd (load_existing_data en path w)) = gets w"
  "feeds (snd (load_existing_data en path w)) = feeds w"
  "clock (snd (load_existing_data en path w)) = clock w"
  by (simp_all add: load_existing_data_def emit_def Let_def split: excel_file.splits)

lemma load_existing_data_frame:
  "fst (load_existing_data en path w)
     = (case excel w path of Sheet stored \<Rightarrow> pd_read_excel en stored | _ \<Rightarrow> [])"
  by (simp add: load_existing_data_def Let_def split: excel_file.splits)

lemma save_sheet:
  assumes "excel_can_write en path"
  shows "excel (save_products_to_excel en products path w) path
           = (let df = fst (load_existing_data en path w);
                  new = filter (\<lambda>p. Cell (JStr (name p)) \<notin> row_name ` set df) products
              in if new = [] then excel w path
                 else Sheet (df @ map (new_row (now_str en)) new))"
proof -
  obtain df w1 where l: "load_existing_data en path w = (df, w1)"
    by (cases "load_existing_data en path w")
  have w1: "excel w1 = excel w" using load_existing_data_state(1) [of en path w] l by simp
  show ?thesis
    using assms by (simp add: save_products_to_excel_def l w1 emit_def Let_def)
qed

lemma save_other_paths:
  "q \<noteq> path \<Longrightarrow> excel (save_products_to_excel en products path w) q = excel w q"
proof -
  obtain df w1 where l: "load_existing_data en path w = (df, w1)"
    by (cases "load_existing_data en path w")
  have w1: "excel w1 = excel w" using load_existing_data_state(1) [of en path w] l by simp
  assume "q \<noteq> path"
  then show ?thesis
    by (simp add: save_products_to_excel_def l w1 emit_def Let_def)
qed

lemma pandas_read_na: "pandas_read [na_row] = [na_row\<lparr>row_name := NaN\<rparr>]"
  by (simp add: pandas_read_def na_row_def default_na_values_def u_def)

text \<open>
  Claim C1. The claim: a product is appended exactly when its name is not in the catalogue,
  and the rows persisted before keep their content. The code compares the name with the
  name column as \<open>pd.read_excel\<close> returns it, and that reads the stored name \<open>NA\<close> as a
  missing value. A first save of the product \<open>NA\<close> into a missing catalogue writes its row;
  a second save of the same product finds no name equal to \<open>NA\<close> in the frame, appends the
  product again, and writes the first row back with an empty name cell.
\<close>

theorem persisted_name_appended_again:
  "excel (save_products_to_excel demo_env [na_item] (u ''c.xlsx'') demo_world) (u ''c.xlsx'')
     = Sheet [na_row]
   \<and> excel (save_products_to_excel demo_env [na_item] (u ''c.xlsx'')
              (save_products_to_excel demo_env [na_item] (u ''c.xlsx'') demo_world))
       (u ''c.xlsx'')
     = Sheet [na_row\<lparr>row_name := NaN\<rparr>, na_row]"
proof -
  have h: "excel_can_write demo_env (u ''c.xlsx'')" by (simp add: demo_env_def)
  let ?w1 = "save_products_to_excel demo_env [na_item] (u ''c.xlsx'') demo_world"
  have new: "new_row (now_str demo_env) na_item = na_row"
    by (simp add: new_row_def na_item_def na_row_def demo_env_def)
  have pd: "pd_read_excel demo_env = pandas_read" by (simp add: demo_env_def)
  have first: "excel ?w1 (u ''c.xlsx'') = Sheet [na_row]"
    by (simp add: save_sheet [OF h] load_existing_data_frame demo_world_def new)
  have df: "fst (load_existing_data demo_env (u ''c.xlsx'') ?w1) = [na_row\<lparr>row_name := NaN\<rparr>]"
    by (simp add: load_existing_data_frame first pd pandas_read_na)
  have second: "excel (save_products_to_excel demo_env [na_item] (u ''c.xlsx'') ?w1) (u ''c.xlsx'')
                  = Sheet [na_row\<lparr>row_name := NaN\<rparr>, na_row]"
    by (simp add: save_sheet [OF h] df new)
  from first second show ?thesis by simp
qed

text \<open>
  Claim C10. Names are compared with the catalogue only, never with the other products of
  the same list. When a name \<open>n\<close> that some product of the list has is not among the names
  loaded from the catalogue and \<open>to_excel\<close> succeeds, the rows named \<open>n\<close> in the sheet after
  the save are one row for each product named \<open>n\<close> in the list, in the order of the list,
  each with the six columns of its product and the time read at the save. Two products of
  one feed with the same new name therefore give two rows.
\<close>

theorem duplicates_within_feed_kept:
  assumes "excel_can_write en path"
      and "Cell (JStr n) \<notin> row_name ` set (fst (load_existing_data en path w))"
      and "n \<in> name ` set products"
  shows "filter (\<lambda>r. row_name r = Cell (JStr n))
           (rows_of (excel (save_products_to_excel en products path w) path))
         = map (\<lambda>p. \<lparr> row_name = Cell (JStr n), row_price = Cell (price p),
                       row_discount_price = Cell (discount_price p),
                       row_month_sale = Cell (month_sale p),
                       row_image_url = Cell (image_url p),
                       row_image_filename = Cell (JStr (image_filename p)),
                       last_updated = Cell (JStr (now_str en)) \<rparr>)
               (filter (\<lambda>p. name p = n) products)"
proof -
  let ?df = "fst (load_existing_data en path w)"
  let ?new = "filter (\<lambda>p. Cell (JStr (name p)) \<notin> row_name ` set ?df) products"
  from assms(2,3) have ne: "?new \<noteq> []" by (auto simp: filter_empty_conv)
  have sheet: "rows_of (excel (save_products_to_excel en products path w) path)
                 = ?df @ map (new_row (now_str en)) ?new"
    using ne by (simp add: save_sheet [OF assms(1)] Let_def rows_of_def)
  have old: "filter (\<lambda>r. row_name r = Cell (JStr n)) ?df = []"
    using assms(2) by (force simp: filter_empty_conv image_iff)
  have new: "filter (\<lambda>r. row_name r = Cell (JStr n)) (map (new_row (now_str en)) ?new)
               = map (\<lambda>p. \<lparr> row_name = Cell (JStr n), row_price = Cell (price p),
                       row_discount_price = Cell (discount_price p),
                       row_month_sale = Cell (month_sale p),
                       row_image_url = Cell (image_url p),
                       row_image_filename = Cell (JStr (image_filename p)),
                       last_updated = Cell (JStr (now_str en)) \<rparr>)
                     (filter (\<lambda>p. name p = n) products)"
    using assms(2) by (induction products) (auto simp: new_row_def)
  show ?thesis by (simp add: sheet old new)
qed

theorem duplicates_within_feed_kept_witness:
  "excel_can_write demo_env (u ''c.xlsx'')
   \<and> Cell (JStr (u ''A'')) \<notin> row_name ` set (fst (load_existing_data demo_env (u ''c.xlsx'') demo_world))
   \<and> u ''A'' \<in> name ` set [demo_item, demo_item]
   \<and> filter (\<lambda>r. row_name r = Cell (JStr (u ''A'')))
        (rows_of (excel (save_products_to_excel demo_env [demo_item, demo_item] (u ''c.xlsx'')
                           demo_world) (u ''c.xlsx'')))
     = [demo_row, demo_row]"
proof -
  have h: "excel_can_write demo_env (u ''c.xlsx'')" by (simp add: demo_env_def)
  have a: "Cell (JStr (u ''A'')) \<notin> row_name ` set (fst (load_existing_data demo_env (u ''c.xlsx'') demo_world))"
    by (simp add: load_existing_data_frame demo_world_def)
  have m: "u ''A'' \<in> name ` set [demo_item, demo_item]" by (simp add: demo_item_def)
  show ?thesis
    using h a m duplicates_within_feed_kept [OF h a m]
    by (simp add: demo_item_def demo_row_def demo_env_def)
qed

text \<open>
  Claim C8. When the feed file is missing, malformed or unreadable, \<open>parse_json_file\<close>
  returns \<open>None\<close> and \<open>process_file\<close> returns at once: the state it leaves differs from the
  one it found by two log records only, so no sheet, no file and no directory is written
  and no request is made.
\<close>

theorem parse_failure_aborts:
  assumes "\<forall>d. feeds w (INPUT_FILE cfg) \<noteq> FeedJson d"
  shows "fst (parse_json_file (INPUT_FILE cfg) w) = None
       \<and> (\<exists>e. process_file cfg en w
                = (None, w\<lparr>trace := trace w @ [Log INFO Processing_started, Log ERROR e]\<rparr>))"
  using assms
  by (cases "feeds w (INPUT_FILE cfg)")
     (auto simp add: process_file_def parse_json_file_def emit_def)

theorem parse_failure_aborts_witness:
  "(\<forall>d. feeds demo_world (INPUT_FILE Config) \<noteq> FeedJson d)
   \<and> process_file Config demo_env demo_world
       = (None, demo_world\<lparr>trace := [Log INFO Processing_started, Log ERROR Json_decode_error]\<rparr>)"
proof -
  have h: "\<forall>d. feeds demo_world (INPUT_FILE Config) \<noteq> FeedJson d" by (simp add: demo_world_def)
  from parse_failure_aborts [OF h, of demo_env] obtain e where
    e: "process_file Config demo_env demo_world
          = (None, demo_world\<lparr>trace := trace demo_world @ [Log INFO Processing_started, Log ERROR e]\<rparr>)"
    by blast
  have "process_file Config demo_env demo_world
          = (None, demo_world\<lparr>trace := [Log INFO Processing_started, Log ERROR Json_decode_error]\<rparr>)"
    using e by (simp add: process_file_def parse_json_file_def emit_def demo_world_def)
  with h show ?thesis by simp
qed

section \<open>Fetching and normalising an image\<close>

lemma temp_suffix_nonempty [simp]: "u ''.temp'' \<noteq> []"
  by (simp add: u_def)

lemma save_original_effect:
  "save_original en image_data fp w = (r, w') \<Longrightarrow>
     (r \<longleftrightarrow> can_write en fp)
   \<and> files w' = (if can_write en fp then (files w)(fp \<mapsto> image_data) else files w)
   \<and> dirs w' = dirs w \<and> excel w' = excel w \<and> feeds w' = feeds w \<and> gets w' = gets w
   \<and> clock w' = clock w"
  by (auto simp: save_original_def emit_def write_file_def Let_def split: if_splits)

lemma cleanup_temp_files: "files (cleanup_temp t w) = (files w)(t := None)"
  by (auto simp: cleanup_temp_def remove_file_def)

lemma cleanup_temp_other:
  "dirs (cleanup_temp t w) = dirs w" "excel (cleanup_temp t w) = excel w"
  "feeds (cleanup_temp t w) = feeds w" "gets (cleanup_temp t w) = gets w"
  "trace (cleanup_temp t w) = trace w" "clock (cleanup_temp t w) = clock w"
  by (simp_all add: cleanup_temp_def remove_file_def)

lemma convert_effect:
  assumes "download_and_convert_to_jpg en image_data fp w = (r, w')"
  shows "(r \<longleftrightarrow> can_write en fp)"
    and "files w' = ((files w)(fp := (if \<not> can_write en fp then files w fp
               else if can_write en (fp @ u ''.temp'') then
                 (case pil_to_jpeg en image_data of Some jpg \<Rightarrow> Some jpg | None \<Rightarrow> Some image_data)
               else Some image_data)))(fp @ u ''.temp'' := None)"
    and "dirs w' = dirs w" and "excel w' = excel w" and "feeds w' = feeds w" and "gets w' = gets w"
    and "clock w' = clock w"
  using assms
  by (auto simp: download_and_convert_to_jpg_def Let_def cleanup_temp_files cleanup_temp_other
        save_original_def emit_def write_file_def remove_file_def fun_upd_twist
      split: if_splits option.splits prod.splits)

text \<open>
  Claim C7, as stated: the raw bytes never stay on disk, and the normalised file is written
  through a temporary file and a rename. The code has no rename: the temporary file holds
  the raw bytes, Pillow saves the JPEG straight to the target path, and when the conversion
  fails the \<open>except\<close> clause writes the raw bytes to the target path and returns \<open>True\<close>.
  Here Pillow rejects the bytes \<open>[1, 2, 3]\<close> and they are the content of \<open>images/a.jpg\<close>
  afterwards.
\<close>

theorem raw_bytes_left_on_disk:
  "fst (download_and_convert_to_jpg demo_env [1, 2, 3] (u ''images/a.jpg'') demo_world) = True
   \<and> files (snd (download_and_convert_to_jpg demo_env [1, 2, 3] (u ''images/a.jpg'') demo_world))
        (u ''images/a.jpg'') = Some [1, 2, 3]"
  by (simp add: download_and_convert_to_jpg_def Let_def cleanup_temp_def save_original_def
        emit_def write_file_def remove_file_def demo_env_def demo_world_def u_def)

text \<open>
  Claim C7, amended. On every path through \<open>_download_and_convert_to_jpg\<close> the temporary
  file \<open>file_path + '.temp'\<close> is absent afterwards; the call succeeds exactly when the
  target path can be written; the target then holds the JPEG when the temporary file could
  be written and Pillow converted the bytes, and the raw bytes otherwise; no other file
  changes. (Removing a file that exists is taken to succeed.)
\<close>

theorem temp_file_always_removed:
  "case download_and_convert_to_jpg en image_data fp w of (r, w') \<Rightarrow>
      files w' (fp @ u ''.temp'') = None
    \<and> (r \<longleftrightarrow> can_write en fp)
    \<and> files w' fp =
        (if \<not> can_write en fp then files w fp
         else if can_write en (fp @ u ''.temp'') then
           (case pil_to_jpeg en image_data of Some jpg \<Rightarrow> Some jpg | None \<Rightarrow> Some image_data)
         else Some image_data)
    \<and> (\<forall>q. q \<noteq> fp \<and> q \<noteq> fp @ u ''.temp'' \<longrightarrow> files w' q = files w q)"
proof -
  obtain r w' where rw: "download_and_convert_to_jpg en image_data fp w = (r, w')"
    by (cases "download_and_convert_to_jpg en image_data fp w")
  show ?thesis
    using convert_effect(1,2) [OF rw] by (simp add: rw)
qed

theorem temp_file_always_removed_witness:
  "(case download_and_convert_to_jpg jpeg_env [1, 2, 3] (u ''a.jpg'')
           (demo_world\<lparr>files := [u ''b.jpg'' \<mapsto> [7]]\<rparr>) of
      (r, w') \<Rightarrow> r \<and> files w' (u ''a.jpg.temp'') = None
                \<and> files w' (u ''a.jpg'') = Some [0xFF, 0xD8, 0xFF]
                \<and> files w' (u ''b.jpg'') = Some [7])"
  using temp_file_always_removed [where en = jpeg_env and image_data = "[1, 2, 3]"
          and fp = "u ''a.jpg''" and w = "demo_world\<lparr>files := [u ''b.jpg'' \<mapsto> [7]]\<rparr>"]
  by (auto simp: jpeg_env_def demo_env_def demo_world_def u_def split: prod.splits)











lemma download_attempts_tiny_body:
  assumes "\<not> CONVERT_TO_JPG cfg"
    and "url_netloc en url = Some d"
    and "session_get en (gets w) url (d = u ''img.meituan.net'') = (Response status content, made)"
    and "\<not> (400 \<le> status \<and> status < 600)"
    and "can_write en fp"
    and "length content < 1024"
  shows "download_attempts cfg en url fp attempt (Suc remaining) w
           = (False,
              w\<lparr>files := (files w)(fp := None),
                 trace := trace w @ adapter_events url (d = u ''img.meituan.net'')
                                      (take ADAPTER_RETRY_TOTAL made) @
                                    [Log WARNING (Too_small (length content) fp)],
                 gets := gets w + 1,
                 clock := clock w + real (sum_list (take ADAPTER_RETRY_TOTAL made))\<rparr>)"
proof -
  have ok: "(400 \<le> status \<and> status < 600) = False" using assms(4) by simp
  show ?thesis
    using assms(1,2,3,5,6)
    by (simp add: download_try_def Let_def emit_def write_file_def remove_file_def ok)
qed

text \<open>
  Claim C5, amended. With \<open>CONVERT_TO_JPG\<close> off, an attempt whose response has a good
  status and a body under 1024 bytes writes the file, logs a warning, removes the file and
  makes \<open>_download_single_image\<close> return \<open>False\<close> at once, whatever the number of attempts
  left: one call of \<open>session.get\<close>, no sleep, no further attempt.
\<close>

theorem tiny_body_fails_at_once:
  assumes "\<not> CONVERT_TO_JPG cfg"
    and "url_netloc en url = Some d"
    and "session_get en (gets w) url (d = u ''img.meituan.net'') = (Response status content, made)"
    and "\<not> (400 \<le> status \<and> status < 600)"
    and "can_write en fp"
    and "length content < 1024"
  shows "download_attempts cfg en url fp attempt (Suc remaining) w
           = (False,
              w\<lparr>files := (files w)(fp := None),
                 trace := trace w @ adapter_events url (d = u ''img.meituan.net'')
                                      (take ADAPTER_RETRY_TOTAL made) @
                                    [Log WARNING (Too_small (length content) fp)],
                 gets := gets w + 1,
                 clock := clock w + real (sum_list (take ADAPTER_RETRY_TOTAL made))\<rparr>)"
  using assms by (rule download_attempts_tiny_body)

text \<open>
  Claim C5, as stated: the small body costs one attempt and the remaining attempts are
  still made. With three attempts allowed, a first response of 10 bytes and a second
  response of 2048 bytes waiting, the function returns \<open>False\<close> after a single request.
\<close>

theorem tiny_body_not_retried:
  "MAX_RETRIES raw_config = 3
   \<and> session_get tiny_env 1 (JStr (u ''http://example.com/a.png'')) False
       = (Response 200 big_body, [])
   \<and> length big_body = 2048
   \<and> download_single_image raw_config tiny_env (JStr (u ''http://example.com/a.png''))
        (u ''images/a.png'') demo_world
     = (False,
        demo_world\<lparr>trace := [HttpGet (JStr (u ''http://example.com/a.png'')) False,
                              Log WARNING (Too_small 10 (u ''images/a.png''))],
                    gets := 1\<rparr>)"
proof -
  let ?url = "JStr (u ''http://example.com/a.png'')"
  have len: "length big_body = 2048"
    by (simp only: big_body_def length_replicate)
  have m: "MAX_RETRIES raw_config = Suc 2" by (simp add: raw_config_def Config_def)
  have h1: "\<not> CONVERT_TO_JPG raw_config" by (simp add: raw_config_def)
  have h2: "url_netloc tiny_env ?url = Some (u ''example.com'')" by (simp add: tiny_env_def)
  have h3: "session_get tiny_env (gets demo_world) ?url (u ''example.com'' = u ''img.meituan.net'')
              = (Response 200 (replicate 10 0), [])"
    by (simp add: tiny_env_def demo_world_def)
  have h4: "\<not> (400 \<le> (200::nat) \<and> (200::nat) < 600)" by simp
  have h5: "can_write tiny_env (u ''images/a.png'')" by (simp add: tiny_env_def demo_env_def)
  have h6: "length (replicate 10 (0::8 word)) < 1024" by simp
  have ne: "(u ''example.com'' = u ''img.meituan.net'') = False" by (simp add: u_def)
  have r: "download_single_image raw_config tiny_env ?url (u ''images/a.png'') demo_world
     = (False,
        demo_world\<lparr>files := (files demo_world)(u ''images/a.png'' := None),
                    trace := trace demo_world @
                             adapter_events ?url (u ''example.com'' = u ''img.meituan.net'')
                               (take ADAPTER_RETRY_TOTAL []) @
                             [Log WARNING (Too_small (length (replicate 10 (0::8 word))) (u ''images/a.png''))],
                    gets := gets demo_world + 1,
                    clock := clock demo_world + real (sum_list (take ADAPTER_RETRY_TOTAL []))\<rparr>)"
    unfolding download_single_image_def m
    by (rule download_attempts_tiny_body [OF h1 h2 h3 h4 h5 h6])
  have w: "demo_world\<lparr>files := (files demo_world)(u ''images/a.png'' := None),
                    trace := trace demo_world @
                             adapter_events ?url (u ''example.com'' = u ''img.meituan.net'')
                               (take ADAPTER_RETRY_TOTAL []) @
                             [Log WARNING (Too_small (length (replicate 10 (0::8 word))) (u ''images/a.png''))],
                    gets := gets demo_world + 1,
                    clock := clock demo_world + real (sum_list (take ADAPTER_RETRY_TOTAL []))\<rparr>
         = demo_world\<lparr>trace := [HttpGet ?url False, Log WARNING (Too_small 10 (u ''images/a.png''))],
                      gets := 1\<rparr>"
    by (simp add: demo_world_def ne adapter_events_def)
  have g: "session_get tiny_env 1 ?url False = (Response 200 big_body, [])" by (simp add: tiny_env_def)
  show ?thesis using len g r w by (simp add: raw_config_def Config_def)
qed

theorem tiny_body_fails_at_once_witness:
  "\<not> CONVERT_TO_JPG raw_config
   \<and> url_netloc tiny_env (JStr (u ''http://example.com/a.png'')) = Some (u ''example.com'')
   \<and> session_get tiny_env (gets demo_world) (JStr (u ''http://example.com/a.png''))
        (u ''example.com'' = u ''img.meituan.net'') = (Response 200 (replicate 10 0), [])
   \<and> \<not> (400 \<le> (200::nat) \<and> (200::nat) < 600)
   \<and> can_write tiny_env (u ''images/a.png'')
   \<and> length (replicate 10 (0::8 word)) < 1024
   \<and> download_attempts raw_config tiny_env (JStr (u ''http://example.com/a.png''))
        (u ''images/a.png'') 0 (Suc 2) demo_world
     = (False,
        demo_world\<lparr>files := (files demo_world)(u ''images/a.png'' := None),
                    trace := trace demo_world @
                             adapter_events (JStr (u ''http://example.com/a.png''))
                                      (u ''example.com'' = u ''img.meituan.net'')
                                      (take ADAPTER_RETRY_TOTAL []) @
                             [Log WARNING (Too_small (length (replicate 10 (0::8 word))) (u ''images/a.png''))],
                    gets := gets demo_world + 1,
                    clock := clock demo_world + real (sum_list (take ADAPTER_RETRY_TOTAL []))\<rparr>)"
proof -
  let ?url = "JStr (u ''http://example.com/a.png'')"
  have h1: "\<not> CONVERT_TO_JPG raw_config" by (simp add: raw_config_def)
  have h2: "url_netloc tiny_env ?url = Some (u ''example.com'')" by (simp add: tiny_env_def)
  have h3: "session_get tiny_env (gets demo_world) ?url (u ''example.com'' = u ''img.meituan.net'')
              = (Response 200 (replicate 10 0), [])"
    by (simp add: tiny_env_def demo_world_def)
  have h4: "\<not> (400 \<le> (200::nat) \<and> (200::nat) < 600)" by simp
  have h5: "can_write tiny_env (u ''images/a.png'')" by (simp add: tiny_env_def demo_env_def)
  have h6: "length (replicate 10 (0::8 word)) < 1024" by simp
  show ?thesis
    using h1 h2 h3 h4 h5 h6 tiny_body_fails_at_once [OF h1 h2 h3 h4 h5 h6, of 0 2]
    by blast
qed

section \<open>Growth of the trace\<close>

lemma quiet_ext_refl [simp]: "quiet_ext w w"
  by (simp add: quiet_ext_def)








lemma save_original_quiet: "quiet_ext w (snd (save_original en b fp w))"
  by (simp add: quiet_ext_def save_original_def emit_def write_file_def Let_def)






section \<open>The retry policy\<close>

lemma wire_gets_append [simp]: "wire_gets (a @ b) = wire_gets a + wire_gets b"
  by (simp add: wire_gets_def)











section \<open>What a download touches\<close>

lemma untouched_refl [simp]: "untouched cfg fp w w"
  by (simp add: untouched_def)







section \<open>The download loop\<close>





section \<open>Extraction and saving, as the pipeline uses them\<close>


lemma quiet_ext_run_log: "quiet_ext w w' \<Longrightarrow> \<forall>e\<in>set (run_log w w'). quiet e"
  by (auto simp: quiet_ext_def run_log_def)

subsection \<open>Extraction\<close>















subsection \<open>Saving\<close>






section \<open>Making the image directory\<close>



section \<open>A run that finds everything in place\<close>


section \<open>The shape of a run\<close>



section \<open>The clock\<close>





section \<open>The log of a run\<close>




section \<open>Two runs in a row\<close>



section \<open>Runs on a feed with one product\<close>























section \<open>The file watcher\<close>




end
